theory Spec2Isabelle
  imports Main "HOL-Library.Sublist" "HOL-Library.AList"
begin

section \<open>The AList web API wrapper: \<^verbatim>\<open>alist/component/client.py\<close>\<close>

text \<open>
  A method whose body is a generator handed to \<^verbatim>\<open>run_gen_step\<close> is modelled
  by the run of that body from top to bottom, every \<^verbatim>\<open>yield\<close> an ordinary
  call: this is the call itself in blocking mode (\<^verbatim>\<open>async_=False\<close>) and what
  awaiting the returned object does in asynchronous mode. The mode is a parameter
  where the source branches on it outside such a body, in \<^verbatim>\<open>read_block\<close>.
  Python \<^verbatim>\<open>str\<close> and
  \<^verbatim>\<open>bytes\<close> values are lists of bytes (a \<^verbatim>\<open>str\<close> in its UTF-8
  encoding): every string operation of the file (\<^verbatim>\<open>startswith\<close>,
  \<^verbatim>\<open>endswith\<close>, \<^verbatim>\<open>+\<close>, comparison with a literal,
  \<^verbatim>\<open>translate\<close> on two ASCII code points, \<^verbatim>\<open>quote\<close>) gives the
  same result on the encoding. An exception is a value of type \<open>exc\<close>; a function
  that may raise returns \<open>exc + 'a\<close>.
\<close>

subsection \<open>Values\<close>

text \<open>Decoded JSON, as \<^verbatim>\<open>json.loads\<close> returns it (an object is a dict, keys unique).\<close>

datatype json = JNull | JBool bool | JInt int | JStr string | JObj "(string \<times> json) list"

text \<open>The atomic Python values a caller passes for a credential.\<close>

datatype pyval = PNone | PBool bool | PInt int | PStr string

fun truthy :: "pyval \<Rightarrow> bool" where
  "truthy PNone = False"
| "truthy (PBool b) = b"
| "truthy (PInt i) = (i \<noteq> 0)"
| "truthy (PStr s) = (s \<noteq> [])"

text \<open>\<^verbatim>\<open>str(n)\<close> for an integer: decimal digits, a minus sign when negative.\<close>

fun str_nat :: "nat \<Rightarrow> string" where
  "str_nat n =
     (if n < 10 then [''0123456789'' ! n]
      else str_nat (n div 10) @ [''0123456789'' ! (n mod 10)])"

declare str_nat.simps [simp del]

definition str_int :: "int \<Rightarrow> string" where
  "str_int i = (if i < 0 then CHR ''-'' # str_nat (nat (- i)) else str_nat (nat i))"

fun py_str :: "pyval \<Rightarrow> string" where
  "py_str PNone = ''None''"
| "py_str (PBool b) = (if b then ''True'' else ''False'')"
| "py_str (PInt i) = str_int i"
| "py_str (PStr s) = s"

fun json_of :: "pyval \<Rightarrow> json" where
  "json_of PNone = JNull"
| "json_of (PBool b) = JBool b"
| "json_of (PInt i) = JInt i"
| "json_of (PStr s) = JStr s"

text \<open>The response envelope \<^verbatim>\<open>{code, message, data}\<close>.\<close>

record envelope =
  code :: int
  message :: string
  data :: json

subsection \<open>Exceptions\<close>

datatype errno = EACCES | ENOENT | ENOTDIR | EEXIST | EPERM | EIO | EINVAL | ESPIPE

datatype exc_class =
  PermissionError | FileNotFoundError | NotADirectoryError | FileExistsError | OSError

text \<open>
  \<open>Raised cls errno arg\<close> is \<^verbatim>\<open>cls(errno, arg)\<close>, where \<open>arg\<close> is the envelope
  when the source passes one and \<open>None\<close> when it passes a message text.
  \<open>TransportError\<close> stands for whatever the HTTP stack raises.
\<close>

datatype exc =
  Raised exc_class errno "envelope option"
| TypeError
| NameError string
| KeyError string
| TransportError string

subsection \<open>\<^verbatim>\<open>check_response\<close> (lines 63--95)\<close>

definition check_code :: "envelope \<Rightarrow> exc + envelope" where
  "check_code resp =
     (if 200 \<le> code resp \<and> code resp < 300 then Inr resp
      else if code resp = 403 then Inl (Raised PermissionError EACCES (Some resp))
      else if code resp = 500 then
        (if suffix ''object not found'' (message resp)
            \<or> prefix ''failed get storage: storage not found'' (message resp)
           then Inl (Raised FileNotFoundError ENOENT (Some resp))
         else if suffix ''not a folder'' (message resp)
           then Inl (Raised NotADirectoryError ENOTDIR (Some resp))
         else if suffix ''file exists'' (message resp)
           then Inl (Raised FileExistsError EEXIST (Some resp))
         else if prefix ''failed get '' (message resp)
           then Inl (Raised PermissionError EPERM (Some resp))
         else Inl (Raised OSError EIO (Some resp)))
      else Inl (Raised OSError EIO (Some resp)))"

text \<open>Awaiting the envelope may raise; the classification is the same afterwards.\<close>

definition check_code_async :: "exc + envelope \<Rightarrow> exc + envelope" where
  "check_code_async awaited = (case awaited of Inl e \<Rightarrow> Inl e | Inr resp \<Rightarrow> check_code resp)"

text \<open>The argument of \<^verbatim>\<open>check_response\<close> when it is not a callable.\<close>

datatype response_arg = Dict envelope | Awaitable "exc + envelope"

fun check_response :: "response_arg \<Rightarrow> exc + envelope" where
  "check_response (Awaitable a) = check_code_async a"
| "check_response (Dict resp) = check_code resp"

subsection \<open>The HTTP boundary\<close>

text \<open>
  What \<^verbatim>\<open>AlistClient.request\<close> hands to the HTTP stack: the completed URL, the
  method, the shared session headers at that moment (they hold the
  \<^verbatim>\<open>Authorization\<close> entry), the per-call \<^verbatim>\<open>headers\<close> and
  \<^verbatim>\<open>json\<close> keyword arguments and the \<^verbatim>\<open>parse\<close> argument.
\<close>

datatype parse_arg = ParseJson | ParseNone | ParseFalse

record request =
  req_url :: string
  req_method :: string
  req_session_headers :: "(string \<times> json) list"
  req_headers :: "(string \<times> string) list option"
  req_json :: "json option"
  req_parse :: parse_arg

record response =
  resp_headers :: "(string \<times> string) list"
  resp_content :: string

text \<open>The effects a call performs, in order: requests sent and responses closed.\<close>

datatype event = Sent request | Closed response

text \<open>
  Everything outside the file: the HTTP stack answers a request with a response or
  raises, and its answer may depend on all that happened before (the log);
  \<^verbatim>\<open>json.loads\<close> decodes a body or raises; \<^verbatim>\<open>sha256(...).hexdigest()\<close>.
\<close>

record env =
  send :: "event list \<Rightarrow> request \<Rightarrow> exc + response"
  loads :: "string \<Rightarrow> exc + envelope"
  sha256_hexdigest :: "string \<Rightarrow> string"

subsection \<open>The client object\<close>

text \<open>
  The instance \<^verbatim>\<open>__dict__\<close>: the four attributes of the constructor, the shared
  header dictionary, and the slot that \<^verbatim>\<open>cached_property\<close> fills for
  \<^verbatim>\<open>base_path\<close> (\<open>None\<close> when the key is absent).
\<close>

record client =
  origin :: string
  username :: string
  password :: string
  otp_code :: pyval
  headers :: "(string \<times> json) list"
  base_path_cache :: "json option"

text \<open>
  The header dictionary is a \<^verbatim>\<open>CIMultiDict\<close> of the \<^verbatim>\<open>multidict\<close>
  package: an ordered list of entries whose keys are compared without regard to the
  case of ASCII letters. \<^verbatim>\<open>d[key] = value\<close> puts the new entry in the place of
  the first entry with that key and removes the later ones, or appends it when there
  is none; \<^verbatim>\<open>d.pop(key, None)\<close> removes the first entry with that key.
\<close>

definition lower :: "char \<Rightarrow> char" where
  "lower ch =
     (case map_of (zip ''ABCDEFGHIJKLMNOPQRSTUVWXYZ'' ''abcdefghijklmnopqrstuvwxyz'') ch of
        None \<Rightarrow> ch
      | Some l \<Rightarrow> l)"

definition same_key :: "string \<Rightarrow> string \<Rightarrow> bool" where
  "same_key a b = (map lower a = map lower b)"

fun CIMultiDict_setitem :: "string \<Rightarrow> 'v \<Rightarrow> (string \<times> 'v) list \<Rightarrow> (string \<times> 'v) list" where
  "CIMultiDict_setitem key val [] = [(key, val)]"
| "CIMultiDict_setitem key val (kv # kvs) =
     (if same_key (fst kv) key
      then (key, val) # filter (\<lambda>kv'. \<not> same_key (fst kv') key) kvs
      else kv # CIMultiDict_setitem key val kvs)"

fun CIMultiDict_pop :: "string \<Rightarrow> (string \<times> 'v) list \<Rightarrow> (string \<times> 'v) list" where
  "CIMultiDict_pop key [] = []"
| "CIMultiDict_pop key (kv # kvs) =
     (if same_key (fst kv) key then kvs else kv # CIMultiDict_pop key kvs)"

text \<open>\<^verbatim>\<open>AlistClient.request\<close> (lines 214--248), with the default \<^verbatim>\<open>request=None\<close>.\<close>

definition complete :: "client \<Rightarrow> string \<Rightarrow> string" where
  "complete c url =
     (if prefix ''http://'' url \<or> prefix ''https://'' url then url
      else origin c @ (if prefix ''/'' url then url else ''/'' @ url))"

definition request ::
  "client \<Rightarrow> string \<Rightarrow> string \<Rightarrow> (string \<times> string) list option
     \<Rightarrow> json option \<Rightarrow> parse_arg \<Rightarrow> request" where
  "request c url method hdrs js parse =
     \<lparr>req_url = complete c url, req_method = method, req_session_headers = headers c,
      req_headers = hdrs, req_json = js, req_parse = parse\<rparr>"

text \<open>
  The three values of \<^verbatim>\<open>parse\<close> the file uses: \<^verbatim>\<open>parse_json\<close> (the
  default) returns the decoded body, \<^verbatim>\<open>None\<close> the response object,
  \<^verbatim>\<open>False\<close> the raw body. The method defaults to POST.
\<close>

definition request_json ::
  "env \<Rightarrow> event list \<Rightarrow> client \<Rightarrow> string \<Rightarrow> string \<Rightarrow> json option
     \<Rightarrow> (exc + envelope) \<times> event list" where
  "request_json env log c url method js =
     (let req = request c url method None js ParseJson
      in (case send env log req of
            Inl e \<Rightarrow> Inl e
          | Inr r \<Rightarrow> loads env (resp_content r),
          log @ [Sent req]))"

definition request_response ::
  "env \<Rightarrow> event list \<Rightarrow> client \<Rightarrow> string \<Rightarrow> (string \<times> string) list
     \<Rightarrow> (exc + response) \<times> event list" where
  "request_response env log c url hdrs =
     (let req = request c url ''POST'' (Some hdrs) None ParseNone
      in (send env log req, log @ [Sent req]))"

definition request_content ::
  "env \<Rightarrow> event list \<Rightarrow> client \<Rightarrow> string \<Rightarrow> (string \<times> string) list
     \<Rightarrow> (exc + string) \<times> event list" where
  "request_content env log c url hdrs =
     (let req = request c url ''POST'' (Some hdrs) None ParseFalse
      in (case send env log req of
            Inl e \<Rightarrow> Inl e
          | Inr r \<Rightarrow> Inr (resp_content r),
          log @ [Sent req]))"

text \<open>The endpoint forwarders the session code calls (lines 326--413).\<close>

definition auth_login ::
  "env \<Rightarrow> event list \<Rightarrow> client \<Rightarrow> json \<Rightarrow> (exc + envelope) \<times> event list" where
  "auth_login env log c payload =
     request_json env log c ''/api/auth/login'' ''POST'' (Some payload)"

definition auth_login_hash ::
  "env \<Rightarrow> event list \<Rightarrow> client \<Rightarrow> json \<Rightarrow> (exc + envelope) \<times> event list" where
  "auth_login_hash env log c payload =
     request_json env log c ''/api/auth/login/hash'' ''POST'' (Some payload)"

definition auth_me :: "env \<Rightarrow> event list \<Rightarrow> client \<Rightarrow> (exc + envelope) \<times> event list" where
  "auth_me env log c = request_json env log c ''/api/me'' ''GET'' None"

text \<open>\<^verbatim>\<open>value[key]\<close> on decoded JSON: only a dict has string keys.\<close>

fun getitem :: "json \<Rightarrow> string \<Rightarrow> exc + json" where
  "getitem (JObj kvs) k = (case map_of kvs k of None \<Rightarrow> Inl (KeyError k) | Some v \<Rightarrow> Inr v)"
| "getitem _ k = Inl TypeError"

subsection \<open>\<^verbatim>\<open>AlistClient.login\<close> (lines 250--298)\<close>

text \<open>
  The three stores into \<^verbatim>\<open>ns\<close> happen before the generator body runs. In the
  body, a failed request, a code outside [200,300) and a response without
  \<^verbatim>\<open>data.token\<close> all leave through an exception, before
  \<^verbatim>\<open>ns.pop("base_path", None)\<close>.
\<close>

definition login_payload :: "env \<Rightarrow> bool \<Rightarrow> string \<Rightarrow> string \<Rightarrow> pyval \<Rightarrow> json" where
  "login_payload env hash_password u p otp =
     (if hash_password
      then JObj [(''username'', JStr u),
                 (''password'', JStr (sha256_hexdigest env
                                        (p @ ''-https://github.com/alist-org/alist''))),
                 (''otp_code'', json_of otp)]
      else JObj [(''username'', JStr u), (''password'', JStr p),
                 (''otp_code'', json_of otp)])"

text \<open>
  The generator body \<^verbatim>\<open>gen_step\<close>. Its free variables
  \<^verbatim>\<open>username\<close>, \<^verbatim>\<open>password\<close> and \<^verbatim>\<open>otp_code\<close> equal the three
  entries of \<^verbatim>\<open>ns\<close> when it runs, so it reads them from there.
\<close>

definition login_gen_step ::
  "env \<Rightarrow> event list \<Rightarrow> client \<Rightarrow> bool \<Rightarrow> (exc + unit) \<times> client \<times> event list" where
  "login_gen_step env log ns hash_password =
     (if username ns \<noteq> [] then
        (case (if hash_password
               then auth_login_hash env log ns
                      (login_payload env hash_password (username ns) (password ns) (otp_code ns))
               else auth_login env log ns
                      (login_payload env hash_password (username ns) (password ns) (otp_code ns)))
         of
           (Inl e, log1) \<Rightarrow> (Inl e, ns, log1)
         | (Inr resp, log1) \<Rightarrow>
             if \<not> (200 \<le> code resp \<and> code resp < 300)
             then (Inl (Raised OSError EINVAL (Some resp)), ns, log1)
             else (case getitem (data resp) ''token'' of
                     Inl e \<Rightarrow> (Inl e, ns, log1)
                   | Inr token \<Rightarrow>
                       (Inr (),
                        ns\<lparr>headers := CIMultiDict_setitem ''Authorization'' token (headers ns),
                           base_path_cache := None\<rparr>,
                        log1)))
      else (Inr (),
            ns\<lparr>headers := CIMultiDict_pop ''Authorization'' (headers ns),
               base_path_cache := None\<rparr>,
            log))"

definition login ::
  "env \<Rightarrow> event list \<Rightarrow> client \<Rightarrow> string \<Rightarrow> string \<Rightarrow> pyval \<Rightarrow> bool
     \<Rightarrow> (exc + unit) \<times> client \<times> event list" where
  "login env log c username_arg password_arg otp_code_arg hash_password =
     login_gen_step env log
       (c\<lparr>username := (if username_arg \<noteq> [] then username_arg else username c),
          password := (if password_arg \<noteq> [] then password_arg else password c),
          otp_code := (if truthy otp_code_arg then otp_code_arg else otp_code c)\<rparr>)
       hash_password"

subsection \<open>\<^verbatim>\<open>base_path\<close> and \<^verbatim>\<open>get_base_path\<close> (lines 164--166, 314--322)\<close>

definition get_base_path :: "env \<Rightarrow> event list \<Rightarrow> client \<Rightarrow> (exc + json) \<times> event list" where
  "get_base_path env log c =
     (case auth_me env log c of
        (Inl e, log1) \<Rightarrow> (Inl e, log1)
      | (Inr resp, log1) \<Rightarrow> (getitem (data resp) ''base_path'', log1))"

text \<open>
  \<^verbatim>\<open>cached_property\<close>: a stored value is returned without a call; otherwise the
  method runs and its result is stored, unless it raises.
\<close>

definition base_path ::
  "env \<Rightarrow> event list \<Rightarrow> client \<Rightarrow> (exc + json) \<times> client \<times> event list" where
  "base_path env log c =
     (case base_path_cache c of
        Some v \<Rightarrow> (Inr v, c, log)
      | None \<Rightarrow>
          (case get_base_path env log c of
             (Inl e, log1) \<Rightarrow> (Inl e, c, log1)
           | (Inr v, log1) \<Rightarrow> (Inr v, c\<lparr>base_path_cache := Some v\<rparr>, log1)))"

subsection \<open>\<^verbatim>\<open>AlistClient.__setattr__\<close> (lines 157--162)\<close>

text \<open>
  \<^verbatim>\<open>self.login()\<close> is called with its defaults; an exception it raises leaves
  \<^verbatim>\<open>__setattr__\<close> before the \<^verbatim>\<open>raise TypeError\<close> is reached.
\<close>

definition setattr ::
  "env \<Rightarrow> event list \<Rightarrow> client \<Rightarrow> string \<Rightarrow> pyval \<Rightarrow> (exc + unit) \<times> client \<times> event list" where
  "setattr env log c attr val =
     (if attr = ''username'' \<or> attr = ''password'' \<or> attr = ''otp_code'' then
        (let ns = (if attr = ''username'' then c\<lparr>username := py_str val\<rparr>
                   else if attr = ''password'' then c\<lparr>password := py_str val\<rparr>
                   else c\<lparr>otp_code := PStr (py_str val)\<rparr>)
         in if attr \<noteq> ''username'' then
              (case login env log ns [] [] (PStr []) True of
                 (Inl e, ns1, log1) \<Rightarrow> (Inl e, ns1, log1)
               | (Inr _, ns1, log1) \<Rightarrow> (Inl TypeError, ns1, log1))
            else (Inl TypeError, ns, log))
      else (Inl TypeError, c, log))"

subsection \<open>\<^verbatim>\<open>AlistClient.get_url\<close> (lines 2562--2573)\<close>

text \<open>
  \<^verbatim>\<open>urllib.parse.quote(string, safe)\<close> of the standard library: a byte passes
  when it is an ASCII letter, a digit, one of \<^verbatim>\<open>_.-~\<close> or listed in
  \<^verbatim>\<open>safe\<close>, and becomes \<^verbatim>\<open>%XX\<close> (two upper-case hex digits) otherwise.
\<close>

definition always_safe :: string where
  "always_safe = ''ABCDEFGHIJKLMNOPQRSTUVWXYZabcdefghijklmnopqrstuvwxyz0123456789_.-~''"

definition percent :: "char \<Rightarrow> string" where
  "percent ch =
     [CHR ''%'', ''0123456789ABCDEF'' ! ((of_char ch :: nat) div 16),
      ''0123456789ABCDEF'' ! ((of_char ch :: nat) mod 16)]"

definition quote :: "string \<Rightarrow> string \<Rightarrow> string" where
  "quote s safe =
     concat (map (\<lambda>ch. if ch \<in> set always_safe \<or> ch \<in> set safe then [ch] else percent ch) s)"

text \<open>\<^verbatim>\<open>path.translate({0x23: "%23", 0x3F: "%3F"})\<close>.\<close>

definition translate :: "string \<Rightarrow> string" where
  "translate s =
     concat (map (\<lambda>ch. if ch = CHR ''#'' then ''%23'' else if ch = CHR ''?'' then ''%3F''
                        else [ch]) s)"

text \<open>\<^verbatim>\<open>self.base_path + path\<close>: only a \<^verbatim>\<open>str\<close> can be added to a \<^verbatim>\<open>str\<close>.\<close>

fun add_str :: "json \<Rightarrow> string \<Rightarrow> exc + string" where
  "add_str (JStr s) t = Inr (s @ t)"
| "add_str _ t = Inl TypeError"

definition safe_chars :: string where
  "safe_chars = ''@[]:/!$&'' @ [CHR 0x27] @ ''()*+,;=''"

definition get_url ::
  "env \<Rightarrow> event list \<Rightarrow> client \<Rightarrow> string \<Rightarrow> bool \<Rightarrow> (exc + string) \<times> client \<times> event list" where
  "get_url env log c path ensure_ascii =
     (case base_path env log c of
        (Inl e, c1, log1) \<Rightarrow> (Inl e, c1, log1)
      | (Inr b, c1, log1) \<Rightarrow>
          (case (if b \<noteq> JStr ''/'' then
                   (case base_path env log1 c1 of
                      (Inl e, c2, log2) \<Rightarrow> (Inl e, c2, log2)
                    | (Inr b2, c2, log2) \<Rightarrow> (add_str b2 path, c2, log2))
                 else (Inr path, c1, log1)) of
             (Inl e, c2, log2) \<Rightarrow> (Inl e, c2, log2)
           | (Inr path1, c2, log2) \<Rightarrow>
               (Inr (if ensure_ascii then origin c2 @ ''/d'' @ quote path1 safe_chars
                     else origin c2 @ ''/d'' @ translate path1),
                c2, log2)))"

subsection \<open>\<^verbatim>\<open>AlistClient.read_bytes\<close> (lines 2618--2678)\<close>

text \<open>
  \<open>read_bytes\<close> below is the run of the generator body of lines 2635--2677 on a
  log; \<open>read_bytes_call\<close>, further down, is the call with its mode.
\<close>

text \<open>
  Of the keyword arguments a caller may pass through \<^verbatim>\<open>**request_kwargs\<close>,
  the reader looks at \<^verbatim>\<open>headers\<close> alone, and the model keeps that one.
\<close>

text \<open>
  The two header dictionaries of the reader share one shape:
  \<^verbatim>\<open>{**headers, "Accept-Encoding": "identity", "Range": ...}\<close> when the caller
  passed a non-empty \<^verbatim>\<open>headers\<close>, the two entries alone otherwise. A dict keeps
  the place of a key it already has.
\<close>

definition range_headers ::
  "(string \<times> string) list option \<Rightarrow> string \<Rightarrow> (string \<times> string) list" where
  "range_headers hdrs rng =
     (case hdrs of
        None \<Rightarrow> [(''Accept-Encoding'', ''identity''), (''Range'', rng)]
      | Some h \<Rightarrow>
          if h \<noteq> []
          then AList.update ''Range'' rng (AList.update ''Accept-Encoding'' ''identity'' h)
          else [(''Accept-Encoding'', ''identity''), (''Range'', rng)])"

text \<open>
  Lines 2665--2667, the end of \<^verbatim>\<open>get_bytes_range\<close>. Comparing an \<^verbatim>\<open>int\<close>
  with \<^verbatim>\<open>None\<close> raises \<^verbatim>\<open>TypeError\<close>.
\<close>

definition closed_range :: "int \<Rightarrow> int option \<Rightarrow> exc + string option" where
  "closed_range start stop =
     (case stop of
        None \<Rightarrow> Inl TypeError
      | Some s \<Rightarrow> if start \<ge> s then Inr None
                  else Inr (Some (str_int start @ ''-'' @ str_int (s - 1))))"

text \<open>
  Line 2649 calls the global name \<^verbatim>\<open>get_total_length\<close>. The first argument of
  \<open>get_bytes_range\<close> is what that name is bound to when the call runs: a function
  from the probe response to the total length (\<open>None\<close> when the response tells
  none), or nothing, and then the call raises \<^verbatim>\<open>NameError\<close>. The
  \<^verbatim>\<open>finally\<close> clause closes the probe response on every way out of the
  \<^verbatim>\<open>try\<close> block.
\<close>

type_synonym length_helper = "response \<Rightarrow> int option"

definition get_bytes_range ::
  "length_helper option \<Rightarrow> env \<Rightarrow> event list \<Rightarrow> client \<Rightarrow> string
     \<Rightarrow> (string \<times> string) list option \<Rightarrow> int \<Rightarrow> int option
     \<Rightarrow> (exc + string option) \<times> event list" where
  "get_bytes_range get_total_length env log c url hdrs start stop =
     (if start < 0 \<or> (case stop of None \<Rightarrow> False | Some s \<Rightarrow> s \<noteq> 0 \<and> s < 0) then
        (case request_response env log c url (range_headers hdrs ''bytes=-1'') of
           (Inl e, log1) \<Rightarrow> (Inl e, log1)
         | (Inr resp, log1) \<Rightarrow>
             (case (case get_total_length of
                      None \<Rightarrow> Inl (NameError ''get_total_length'')
                    | Some f \<Rightarrow>
                        (case f resp of
                           None \<Rightarrow> Inl (Raised OSError ESPIPE None)
                         | Some len \<Rightarrow> Inr len)) of
                Inl e \<Rightarrow> (Inl e, log1 @ [Closed resp])
              | Inr len \<Rightarrow>
                  (let start1 = (if start < 0 then start + len else start);
                       start2 = (if start1 < 0 then 0 else start1)
                   in case stop of
                        None \<Rightarrow> (Inr (Some (str_int start2 @ ''-'')), log1 @ [Closed resp])
                      | Some s \<Rightarrow>
                          (closed_range start2 (Some (if s < 0 then s + len else s)),
                           log1 @ [Closed resp]))))
      else (closed_range start stop, log))"

text \<open>\<^verbatim>\<open>AlistClient.read_bytes_range\<close> (lines 2704--2727).\<close>

definition read_bytes_range ::
  "env \<Rightarrow> event list \<Rightarrow> client \<Rightarrow> string \<Rightarrow> string \<Rightarrow> (string \<times> string) list option
     \<Rightarrow> (exc + string) \<times> event list" where
  "read_bytes_range env log c url bytes_range hdrs =
     request_content env log c url (range_headers hdrs (''bytes='' @ bytes_range))"

definition read_bytes ::
  "length_helper option \<Rightarrow> env \<Rightarrow> event list \<Rightarrow> client \<Rightarrow> string
     \<Rightarrow> (string \<times> string) list option \<Rightarrow> int \<Rightarrow> int option
     \<Rightarrow> (exc + string) \<times> event list" where
  "read_bytes get_total_length env log c url hdrs start stop =
     (case get_bytes_range get_total_length env log c url hdrs start stop of
        (Inl e, log1) \<Rightarrow> (Inl e, log1)
      | (Inr None, log1) \<Rightarrow> (Inr [], log1)
      | (Inr (Some bytes_range), log1) \<Rightarrow>
          if bytes_range = [] then (Inr [], log1)
          else read_bytes_range env log1 c url bytes_range hdrs)"

text \<open>
  The namespace of the module as it is written: line 37 imports
  \<^verbatim>\<open>get_content_length\<close> from \<^verbatim>\<open>http_response\<close>, and no import,
  definition or assignment of the file binds \<^verbatim>\<open>get_total_length\<close>, which is
  no builtin either.
\<close>

definition module_get_total_length :: "length_helper option" where
  "module_get_total_length = None"

subsection \<open>\<^verbatim>\<open>AlistClient.read_block\<close> (lines 2753--2783)\<close>

text \<open>
  What a call hands back, by mode: the bytes themselves; an awaitable, which runs a
  generator body when it is awaited; or an async generator object, which is what
  calling an \<^verbatim>\<open>async def\<close> with a \<^verbatim>\<open>yield\<close> in its body gives (the values
  it would yield are kept).
\<close>

datatype returned =
  Bytes string
| Awaitable "event list \<Rightarrow> (exc + string) \<times> event list"
| AsyncGenerator "string list"

text \<open>
  \<^verbatim>\<open>await x\<close>: an awaitable runs; any other object raises \<^verbatim>\<open>TypeError\<close>
  (object can't be used in 'await' expression).
\<close>

fun await :: "returned \<Rightarrow> event list \<Rightarrow> (exc + string) \<times> event list" where
  "await (Awaitable body) log = body log"
| "await (Bytes b) log = (Inl TypeError, log)"
| "await (AsyncGenerator ys) log = (Inl TypeError, log)"

text \<open>
  \<^verbatim>\<open>run_gen_step(gen_step, async_=async_)\<close>: in blocking mode the body runs now;
  in asynchronous mode nothing runs and an awaitable of the body is returned.
\<close>

definition run_gen_step ::
  "(event list \<Rightarrow> (exc + string) \<times> event list) \<Rightarrow> event list \<Rightarrow> bool
     \<Rightarrow> (exc + returned) \<times> event list" where
  "run_gen_step gen_step log async =
     (if async then (Inr (Awaitable gen_step), log)
      else (case gen_step log of
              (Inl e, log1) \<Rightarrow> (Inl e, log1)
            | (Inr b, log1) \<Rightarrow> (Inr (Bytes b), log1)))"

text \<open>\<^verbatim>\<open>read_bytes\<close> as a call with its mode (line 2678).\<close>

definition read_bytes_call ::
  "length_helper option \<Rightarrow> env \<Rightarrow> event list \<Rightarrow> client \<Rightarrow> string
     \<Rightarrow> (string \<times> string) list option \<Rightarrow> int \<Rightarrow> int option \<Rightarrow> bool
     \<Rightarrow> (exc + returned) \<times> event list" where
  "read_bytes_call get_total_length env log c url hdrs start stop async =
     run_gen_step (\<lambda>log1. read_bytes get_total_length env log1 c url hdrs start stop)
       log async"

text \<open>
  Lines 2770--2783. With \<^verbatim>\<open>size <= 0\<close> the blocking branch returns
  \<^verbatim>\<open>b""\<close>; the asynchronous branch defines \<^verbatim>\<open>request\<close> as an
  \<^verbatim>\<open>async def\<close> whose body is \<^verbatim>\<open>yield b""\<close> and returns
  \<^verbatim>\<open>request()\<close>.
\<close>

definition read_block ::
  "length_helper option \<Rightarrow> env \<Rightarrow> event list \<Rightarrow> client \<Rightarrow> string
     \<Rightarrow> (string \<times> string) list option \<Rightarrow> int \<Rightarrow> int \<Rightarrow> bool
     \<Rightarrow> (exc + returned) \<times> event list" where
  "read_block get_total_length env log c url hdrs sz offset async =
     (if sz \<le> 0 then
        (if async then (Inr (AsyncGenerator [[]]), log) else (Inr (Bytes []), log))
      else read_bytes_call get_total_length env log c url hdrs offset (Some (offset + sz))
             async)"

text \<open>The length probe of lines 2638--2647, as \<^verbatim>\<open>request\<close> receives it.\<close>

definition probe :: "client \<Rightarrow> string \<Rightarrow> (string \<times> string) list option \<Rightarrow> request" where
  "probe c url hdrs =
     request c url ''POST'' (Some (range_headers hdrs ''bytes=-1'')) None ParseNone"

subsection \<open>A server and a client to run the methods on\<close>

text \<open>
  The server answers \<^verbatim>\<open>GET\<close> (the identity lookup) with a body that decodes
  to an envelope holding \<^verbatim>\<open>base_path\<close>, a login with the token when the user
  is \<^verbatim>\<open>alice\<close> and with code 401 otherwise, and any other request with ten
  bytes of a file of 100.
\<close>

definition demo_send :: "event list \<Rightarrow> request \<Rightarrow> exc + response" where
  "demo_send log req =
     (if req_method req = ''GET''
      then Inr \<lparr>resp_headers = [], resp_content = ''me''\<rparr>
      else case req_json req of
             None \<Rightarrow> Inr \<lparr>resp_headers = [(''Content-Range'', ''bytes 99-99/100'')],
                          resp_content = ''0123456789''\<rparr>
           | Some payload \<Rightarrow>
               if getitem payload ''username'' = Inr (JStr ''alice'')
               then Inr \<lparr>resp_headers = [], resp_content = ''welcome''\<rparr>
               else Inr \<lparr>resp_headers = [], resp_content = ''denied''\<rparr>)"

definition demo_loads :: "string \<Rightarrow> exc + envelope" where
  "demo_loads body =
     (if body = ''denied''
      then Inr \<lparr>code = 401, message = ''password is incorrect'', data = JNull\<rparr>
      else if body = ''welcome''
      then Inr \<lparr>code = 200, message = ''success'', data = JObj [(''token'', JStr ''t1'')]\<rparr>
      else Inr \<lparr>code = 200, message = ''success'',
                 data = JObj [(''base_path'', JStr ''/home'')]\<rparr>)"

definition demo_env :: env where
  "demo_env = \<lparr>send = demo_send, loads = demo_loads, sha256_hexdigest = (\<lambda>s. ''digest'')\<rparr>"

definition demo_client :: client where
  "demo_client =
     \<lparr>origin = ''http://localhost:5244'', username = ''alice'', password = ''secret'',
      otp_code = PStr [],
      headers = [(''Accept'', JStr ''application/json, text/plain, */*''),
                 (''Accept-Encoding'', JStr ''gzip, deflate, br, zstd''),
                 (''Connection'', JStr ''keep-alive''),
                 (''Authorization'', JStr ''t0'')],
      base_path_cache = Some (JStr ''/old'')\<rparr>"

text \<open>A length helper, for the runs in which \<^verbatim>\<open>get_total_length\<close> is bound.\<close>

definition demo_total_length :: length_helper where
  "demo_total_length r =
     (if map_of (resp_headers r) ''Content-Range'' = Some ''bytes 99-99/100'' then Some 100
      else None)"

section \<open>Theorems\<close>

subsection \<open>The response validator\<close>

text \<open>
  C7. An envelope whose code lies in [200,300) is returned as it is, whatever its
  message; \<open>check_code\<close> is a function of the envelope alone, so there is no effect
  beside the returned value.
\<close>

theorem check_code_success:
  assumes "200 \<le> code resp" and "code resp < 300"
  shows "check_code resp = Inr resp"
  using assms by (simp add: check_code_def)

theorem check_code_success_witness:
  "check_code \<lparr>code = 200, message = ''success'', data = JNull\<rparr>
     = Inr \<lparr>code = 200, message = ''success'', data = JNull\<rparr>"
  using check_code_success [of "\<lparr>code = 200, message = ''success'', data = JNull\<rparr>"]
  by simp

text \<open>
  C1. An envelope whose code is outside [200,300) makes the validator raise, and the
  first matching row decides the exception: code 403 gives
  \<^verbatim>\<open>PermissionError(EACCES)\<close> (PermissionDenied); code 500 with a message ending in
  "object not found" or starting with "failed get storage: storage not found" gives
  \<^verbatim>\<open>FileNotFoundError\<close> (NotFound); code 500 with a message ending in
  "not a folder" gives \<^verbatim>\<open>NotADirectoryError\<close>; code 500 with a message ending in
  "file exists" gives \<^verbatim>\<open>FileExistsError\<close> (AlreadyExists); code 500 with a message
  starting with "failed get " gives \<^verbatim>\<open>PermissionError(EPERM)\<close> (the operation-level
  PermissionDenied); everything else gives \<^verbatim>\<open>OSError(EIO)\<close> (GenericIOFailure).
  Each exception carries the whole envelope.
\<close>

theorem check_code_failure:
  assumes "\<not> (200 \<le> code resp \<and> code resp < 300)"
  shows "check_code resp = Inl
     (if code resp = 403 then Raised PermissionError EACCES (Some resp)
      else if code resp = 500 \<and>
              (suffix ''object not found'' (message resp)
               \<or> prefix ''failed get storage: storage not found'' (message resp))
        then Raised FileNotFoundError ENOENT (Some resp)
      else if code resp = 500 \<and> suffix ''not a folder'' (message resp)
        then Raised NotADirectoryError ENOTDIR (Some resp)
      else if code resp = 500 \<and> suffix ''file exists'' (message resp)
        then Raised FileExistsError EEXIST (Some resp)
      else if code resp = 500 \<and> prefix ''failed get '' (message resp)
        then Raised PermissionError EPERM (Some resp)
      else Raised OSError EIO (Some resp))"
  using assms by (simp add: check_code_def)

theorem check_code_failure_witness:
  "check_code \<lparr>code = 403, message = ''anything'', data = JNull\<rparr>
     = Inl (Raised PermissionError EACCES
              (Some \<lparr>code = 403, message = ''anything'', data = JNull\<rparr>))
   \<and> check_code \<lparr>code = 500, message = ''xxx object not found'', data = JNull\<rparr>
     = Inl (Raised FileNotFoundError ENOENT
              (Some \<lparr>code = 500, message = ''xxx object not found'', data = JNull\<rparr>))
   \<and> check_code \<lparr>code = 500, message = ''path is not a folder'', data = JNull\<rparr>
     = Inl (Raised NotADirectoryError ENOTDIR
              (Some \<lparr>code = 500, message = ''path is not a folder'', data = JNull\<rparr>))
   \<and> check_code \<lparr>code = 500, message = ''failed get dir'', data = JNull\<rparr>
     = Inl (Raised PermissionError EPERM
              (Some \<lparr>code = 500, message = ''failed get dir'', data = JNull\<rparr>))
   \<and> check_code \<lparr>code = 404, message = ''object not found'', data = JNull\<rparr>
     = Inl (Raised OSError EIO
              (Some \<lparr>code = 404, message = ''object not found'', data = JNull\<rparr>))"
  using
    check_code_failure [of "\<lparr>code = 403, message = ''anything'', data = JNull\<rparr>"]
    check_code_failure [of "\<lparr>code = 500, message = ''xxx object not found'', data = JNull\<rparr>"]
    check_code_failure [of "\<lparr>code = 500, message = ''path is not a folder'', data = JNull\<rparr>"]
    check_code_failure [of "\<lparr>code = 500, message = ''failed get dir'', data = JNull\<rparr>"]
    check_code_failure [of "\<lparr>code = 404, message = ''object not found'', data = JNull\<rparr>"]
  by (simp add: suffix_to_prefix)

subsection \<open>The ranged reader\<close>

lemma str_nat_nonempty: "str_nat n \<noteq> []"
  by (subst str_nat.simps) simp

lemma str_int_nonempty: "str_int i \<noteq> []"
  by (simp add: str_int_def str_nat_nonempty)

lemma range_headers_Range: "map_of (range_headers hdrs rng) ''Range'' = Some rng"
  by (simp add: range_headers_def update_conv' split: option.splits)

lemma range_headers_Accept_Encoding:
  "map_of (range_headers hdrs rng) ''Accept-Encoding'' = Some ''identity''"
  by (simp add: range_headers_def update_conv' split: option.splits)

text \<open>Two bounds that are not negative: no probe, lines 2665--2667 decide.\<close>

lemma get_bytes_range_direct:
  assumes "0 \<le> start" and "0 \<le> stop"
  shows "get_bytes_range g env log c url hdrs start (Some stop)
           = (closed_range start (Some stop), log)"
  using assms by (simp add: get_bytes_range_def)

lemma read_bytes_window:
  assumes "0 \<le> start" and "start < stop"
  shows "read_bytes g env log c url hdrs start (Some stop) =
     (let req = request c url ''POST''
                  (Some (range_headers hdrs
                           (''bytes='' @ str_int start @ ''-'' @ str_int (stop - 1))))
                  None ParseFalse
      in (case send env log req of Inl e \<Rightarrow> Inl e | Inr r \<Rightarrow> Inr (resp_content r),
          log @ [Sent req]))"
  using assms
  by (simp add: read_bytes_def get_bytes_range_direct closed_range_def str_int_nonempty
      read_bytes_range_def request_content_def)

lemma read_bytes_empty:
  assumes "0 \<le> start" and "0 \<le> stop" and "stop \<le> start"
  shows "read_bytes g env log c url hdrs start (Some stop) = (Inr [], log)"
  using assms by (simp add: read_bytes_def get_bytes_range_direct closed_range_def)

text \<open>
  A start that is not negative and no stop: the condition of line 2637 is false, and
  line 2665 compares the start with \<^verbatim>\<open>None\<close>. No request is sent.
\<close>

lemma read_bytes_open_ended_TypeError:
  assumes "0 \<le> start"
  shows "read_bytes g env log c url hdrs start None = (Inl TypeError, log)"
  using assms by (simp add: read_bytes_def get_bytes_range_def closed_range_def)

text \<open>A negative bound: the probe is sent first, and its response is closed.\<close>

lemma get_bytes_range_probe_failed:
  assumes "start < 0 \<or> (\<exists>s. stop = Some s \<and> s < 0)"
      and "send env log (probe c url hdrs) = Inl e"
  shows "get_bytes_range g env log c url hdrs start stop
           = (Inl e, log @ [Sent (probe c url hdrs)])"
  using assms
  by (auto simp add: get_bytes_range_def request_response_def probe_def Let_def)

lemma get_bytes_range_unbound:
  assumes "start < 0 \<or> (\<exists>s. stop = Some s \<and> s < 0)"
      and "send env log (probe c url hdrs) = Inr r"
  shows "get_bytes_range None env log c url hdrs start stop
           = (Inl (NameError ''get_total_length''),
              log @ [Sent (probe c url hdrs), Closed r])"
  using assms
  by (auto simp add: get_bytes_range_def request_response_def probe_def Let_def)

lemma get_bytes_range_no_length:
  assumes "start < 0 \<or> (\<exists>s. stop = Some s \<and> s < 0)"
      and "send env log (probe c url hdrs) = Inr r"
      and "f r = None"
  shows "get_bytes_range (Some f) env log c url hdrs start stop
           = (Inl (Raised OSError ESPIPE None), log @ [Sent (probe c url hdrs), Closed r])"
  using assms
  by (auto simp add: get_bytes_range_def request_response_def probe_def Let_def)

lemma get_bytes_range_length:
  assumes "start < 0 \<or> (\<exists>s. stop = Some s \<and> s < 0)"
      and "send env log (probe c url hdrs) = Inr r"
      and "f r = Some len"
  shows "get_bytes_range (Some f) env log c url hdrs start stop
           = (case stop of
                None \<Rightarrow>
                  Inr (Some (str_int (max 0 (if start < 0 then start + len else start)) @ ''-''))
              | Some s \<Rightarrow>
                  closed_range (max 0 (if start < 0 then start + len else start))
                    (Some (if s < 0 then s + len else s)),
              log @ [Sent (probe c url hdrs), Closed r])"
  using assms
  by (auto simp add: get_bytes_range_def request_response_def probe_def Let_def max_def
       split: option.splits)

lemma demo_probe:
  "send demo_env log (probe c url hdrs)
     = Inr \<lparr>resp_headers = [(''Content-Range'', ''bytes 99-99/100'')],
            resp_content = ''0123456789''\<rparr>"
  by (simp add: demo_env_def demo_send_def probe_def request_def)

text \<open>
  With the length helper bound, a probe that tells the length and normalised bounds
  with the start not below the stop give the empty byte sequence, the log holding
  the probe and its close only.
\<close>

lemma read_bytes_empty_after_probe:
  assumes "start < 0 \<or> stop < 0"
      and "send env log (probe c url hdrs) = Inr r"
      and "f r = Some len"
      and "(if stop < 0 then stop + len else stop)
             \<le> max 0 (if start < 0 then start + len else start)"
  shows "read_bytes (Some f) env log c url hdrs start (Some stop)
            = (Inr [], log @ [Sent (probe c url hdrs), Closed r])"
proof -
  from assms(1) have "start < 0 \<or> (\<exists>s. Some stop = Some s \<and> s < 0)" by auto
  from get_bytes_range_length [where f = f, OF this assms(2) assms(3)] assms(4)
  show ?thesis by (simp add: read_bytes_def closed_range_def)
qed

text \<open>
  In the module as it is written, a call with a negative bound never returns: it
  raises what the probe request raised, or \<^verbatim>\<open>NameError\<close>.
\<close>

lemma read_bytes_module_negative_bound:
  assumes "start < 0 \<or> (\<exists>s. stop = Some s \<and> s < 0)"
  shows "read_bytes module_get_total_length env log c url hdrs start stop =
           (case send env log (probe c url hdrs) of
              Inl e \<Rightarrow> (Inl e, log @ [Sent (probe c url hdrs)])
            | Inr r \<Rightarrow> (Inl (NameError ''get_total_length''),
                        log @ [Sent (probe c url hdrs), Closed r]))"
proof (cases "send env log (probe c url hdrs)")
  case (Inl e)
  from get_bytes_range_probe_failed [OF assms this] Inl
  show ?thesis by (simp add: read_bytes_def)
next
  case (Inr r)
  from get_bytes_range_unbound [OF assms this] Inr
  show ?thesis by (simp add: read_bytes_def module_get_total_length_def)
qed

text \<open>
  C6. With two bounds that are not negative and the start not below the stop, as for
  \<^verbatim>\<open>start=5, stop=3\<close>, the call returns the empty byte sequence and sends
  nothing. With negative bounds that normalise to such a pair,
  \<^verbatim>\<open>start=-10, stop=-20\<close> on a resource of 100 bytes (90 and 80), the module as
  it is written sends the probe, closes it and raises \<^verbatim>\<open>NameError\<close>; with
  \<^verbatim>\<open>get_total_length\<close> bound to a helper that reads 100 from the same response,
  the same call returns the empty byte sequence and sends no data request.
\<close>

theorem read_bytes_negative_window_NameError:
  "read_bytes module_get_total_length demo_env [] demo_client ''/d/home/a.bin'' None
        (- 10) (Some (- 20))
     = (Inl (NameError ''get_total_length''),
        [Sent (probe demo_client ''/d/home/a.bin'' None),
         Closed \<lparr>resp_headers = [(''Content-Range'', ''bytes 99-99/100'')],
                 resp_content = ''0123456789''\<rparr>])
   \<and> read_bytes (Some demo_total_length) demo_env [] demo_client ''/d/home/a.bin'' None
        (- 10) (Some (- 20))
     = (Inr [],
        [Sent (probe demo_client ''/d/home/a.bin'' None),
         Closed \<lparr>resp_headers = [(''Content-Range'', ''bytes 99-99/100'')],
                 resp_content = ''0123456789''\<rparr>])
   \<and> read_bytes module_get_total_length demo_env [] demo_client ''/d/home/a.bin'' None
        5 (Some 3)
     = (Inr [], [])"
proof -
  have n: "(- 10 :: int) < 0 \<or> (\<exists>s. Some (- 20 :: int) = Some s \<and> s < 0)" by simp
  have l: "demo_total_length \<lparr>resp_headers = [(''Content-Range'', ''bytes 99-99/100'')],
            resp_content = ''0123456789''\<rparr> = Some 100"
    by (simp add: demo_total_length_def)
  have a: "read_bytes module_get_total_length demo_env [] demo_client ''/d/home/a.bin'' None
        (- 10) (Some (- 20))
     = (Inl (NameError ''get_total_length''),
        [Sent (probe demo_client ''/d/home/a.bin'' None),
         Closed \<lparr>resp_headers = [(''Content-Range'', ''bytes 99-99/100'')],
                 resp_content = ''0123456789''\<rparr>])"
    using read_bytes_module_negative_bound [OF n, of demo_env "[]" demo_client
        "''/d/home/a.bin''" None]
    by (simp add: demo_probe)
  have b: "read_bytes (Some demo_total_length) demo_env [] demo_client ''/d/home/a.bin'' None
        (- 10) (Some (- 20))
     = (Inr [],
        [Sent (probe demo_client ''/d/home/a.bin'' None),
         Closed \<lparr>resp_headers = [(''Content-Range'', ''bytes 99-99/100'')],
                 resp_content = ''0123456789''\<rparr>])"
    using read_bytes_empty_after_probe [where f = demo_total_length and start = "- 10"
        and stop = "- 20" and len = 100, OF _ demo_probe l]
    by simp
  have c: "read_bytes module_get_total_length demo_env [] demo_client ''/d/home/a.bin'' None
        5 (Some 3) = (Inr [], [])"
    by (simp add: read_bytes_empty)
  from a b c show ?thesis by simp
qed

text \<open>
  \<^verbatim>\<open>read_block\<close> with a positive size is the \<^verbatim>\<open>read_bytes\<close> call in the
  same mode; awaited, the asynchronous one runs what the blocking one runs.
\<close>

lemma read_block_positive:
  assumes "0 < sz"
  shows "read_block g env log c url hdrs sz offset async
           = read_bytes_call g env log c url hdrs offset (Some (offset + sz)) async"
  using assms by (simp add: read_block_def)

lemma read_bytes_call_blocking:
  "read_bytes_call g env log c url hdrs start stop False =
     (case read_bytes g env log c url hdrs start stop of
        (Inl e, log1) \<Rightarrow> (Inl e, log1)
      | (Inr b, log1) \<Rightarrow> (Inr (Bytes b), log1))"
  by (simp add: read_bytes_call_def run_gen_step_def)

lemma read_bytes_call_awaited:
  "read_bytes_call g env log c url hdrs start stop True = (Inr aw, log1)
     \<Longrightarrow> log1 = log \<and> await aw log2 = read_bytes g env log2 c url hdrs start stop"
  by (auto simp add: read_bytes_call_def run_gen_step_def)

lemma read_block_blocking_empty:
  assumes "sz \<le> 0"
  shows "read_block g env log c url hdrs sz offset False = (Inr (Bytes []), log)"
  using assms by (simp add: read_block_def)

text \<open>
  C8. In blocking mode \<^verbatim>\<open>read_block(url, size=0, offset=10)\<close> returns the empty
  byte sequence and sends nothing. In asynchronous mode the same call sends nothing
  either, but what it returns is an async generator object, and awaiting it raises
  \<^verbatim>\<open>TypeError\<close>: no empty byte result is obtained. With a positive size the
  call is \<^verbatim>\<open>read_bytes(url, start=offset, stop=offset+size)\<close> in both modes.
\<close>

theorem read_block_async_empty_generator:
  "read_block module_get_total_length demo_env [] demo_client ''/d/home/a.bin'' None 0 10 True
     = (Inr (AsyncGenerator [[]]), [])
   \<and> await (AsyncGenerator [[]]) [] = (Inl TypeError, [])
   \<and> read_block module_get_total_length demo_env [] demo_client ''/d/home/a.bin'' None 0 10
        False
     = (Inr (Bytes []), [])
   \<and> read_block module_get_total_length demo_env [] demo_client ''/d/home/a.bin'' None 4 2
        True
     = read_bytes_call module_get_total_length demo_env [] demo_client ''/d/home/a.bin'' None
         2 (Some 6) True
   \<and> read_block module_get_total_length demo_env [] demo_client ''/d/home/a.bin'' None 4 2
        False
     = read_bytes_call module_get_total_length demo_env [] demo_client ''/d/home/a.bin'' None
         2 (Some 6) False"
  by (simp add: read_block_def)

text \<open>
  C2, as stated, fails where the start is not below the stop: with
  \<^verbatim>\<open>start=4, stop=2\<close> the call returns the empty byte sequence and sends
  nothing, where the claim has one ranged request for \<^verbatim>\<open>4-1\<close>.
\<close>

theorem read_bytes_closed_window_counterexample:
  "read_bytes module_get_total_length demo_env [] demo_client ''/d/home/a.bin'' None 4 (Some 2)
     = (Inr [], [])"
  by (simp add: read_bytes_def get_bytes_range_def closed_range_def)

text \<open>
  C2, amended. For a start that is not negative and a stop above it, the range is
  \<^verbatim>\<open>{start}-{stop-1}\<close> and the call sends exactly one request, the ranged one
  and no probe, whose \<^verbatim>\<open>headers\<close> argument has
  \<^verbatim>\<open>Range: bytes={start}-{stop-1}\<close> and \<^verbatim>\<open>Accept-Encoding: identity\<close>;
  it returns the body of the response, or raises what the HTTP stack raised.
\<close>

theorem read_bytes_closed_window:
  assumes "0 \<le> start" and "start < stop"
  shows "read_bytes g env log c url hdrs start (Some stop) =
           (case send env log
                   (request c url ''POST''
                      (Some (range_headers hdrs
                               (''bytes='' @ str_int start @ ''-'' @ str_int (stop - 1))))
                      None ParseFalse) of
              Inl e \<Rightarrow> Inl e
            | Inr r \<Rightarrow> Inr (resp_content r),
            log @ [Sent (request c url ''POST''
                           (Some (range_headers hdrs
                                    (''bytes='' @ str_int start @ ''-'' @ str_int (stop - 1))))
                           None ParseFalse)])
       \<and> map_of (range_headers hdrs (''bytes='' @ str_int start @ ''-'' @ str_int (stop - 1)))
             ''Range''
           = Some (''bytes='' @ str_int start @ ''-'' @ str_int (stop - 1))
       \<and> map_of (range_headers hdrs (''bytes='' @ str_int start @ ''-'' @ str_int (stop - 1)))
             ''Accept-Encoding''
           = Some ''identity''"
  using assms
  by (simp add: read_bytes_window range_headers_Range range_headers_Accept_Encoding Let_def)

theorem read_bytes_closed_window_witness:
  "read_bytes module_get_total_length demo_env [] demo_client ''/d/home/a.bin'' None 2 (Some 6)
     = (Inr ''0123456789'',
        [Sent \<lparr>req_url = ''http://localhost:5244/d/home/a.bin'', req_method = ''POST'',
               req_session_headers = headers demo_client,
               req_headers =
                 Some [(''Accept-Encoding'', ''identity''), (''Range'', ''bytes=2-5'')],
               req_json = None, req_parse = ParseFalse\<rparr>])"
  using read_bytes_closed_window [of 2 6 module_get_total_length demo_env "[]" demo_client
      "''/d/home/a.bin''" None]
  by (simp add: str_int_def str_nat.simps range_headers_def request_def complete_def
      demo_env_def demo_send_def demo_client_def)

text \<open>
  C4. In the module as it is written, \<^verbatim>\<open>read_bytes(url, start=-10)\<close> sends the
  probe, closes its response and raises \<^verbatim>\<open>NameError\<close>: no length is read and
  no range is fetched. With \<^verbatim>\<open>get_total_length\<close> bound to a helper that reads
  100 from the same response, the same call fetches \<^verbatim>\<open>90-\<close>.
\<close>

theorem read_bytes_negative_start_NameError:
  "read_bytes module_get_total_length demo_env [] demo_client ''/d/home/a.bin'' None (- 10) None
     = (Inl (NameError ''get_total_length''),
        [Sent (probe demo_client ''/d/home/a.bin'' None),
         Closed \<lparr>resp_headers = [(''Content-Range'', ''bytes 99-99/100'')],
                 resp_content = ''0123456789''\<rparr>])
   \<and> read_bytes (Some demo_total_length) demo_env [] demo_client ''/d/home/a.bin'' None
        (- 10) None
     = (Inr ''0123456789'',
        [Sent (probe demo_client ''/d/home/a.bin'' None),
         Closed \<lparr>resp_headers = [(''Content-Range'', ''bytes 99-99/100'')],
                 resp_content = ''0123456789''\<rparr>,
         Sent (request demo_client ''/d/home/a.bin'' ''POST''
                 (Some [(''Accept-Encoding'', ''identity''), (''Range'', ''bytes=90-'')])
                 None ParseFalse)])"
proof -
  have p: "(- 10 :: int) < 0 \<or> (\<exists>s. (None :: int option) = Some s \<and> s < 0)" by simp
  have r: "send demo_env [] (probe demo_client ''/d/home/a.bin'' None)
     = Inr \<lparr>resp_headers = [(''Content-Range'', ''bytes 99-99/100'')],
            resp_content = ''0123456789''\<rparr>" by (rule demo_probe)
  have l: "demo_total_length \<lparr>resp_headers = [(''Content-Range'', ''bytes 99-99/100'')],
            resp_content = ''0123456789''\<rparr> = Some 100"
    by (simp add: demo_total_length_def)
  have s90: "str_int 90 = ''90''" by (simp add: str_int_def str_nat.simps)
  show ?thesis
    using get_bytes_range_unbound [OF p r] get_bytes_range_length [where f = demo_total_length, OF p r l]
    by (simp add: read_bytes_def module_get_total_length_def s90 read_bytes_range_def
        request_content_def range_headers_def demo_env_def demo_send_def request_def)
qed

text \<open>
  C5. The probe response is closed on every way out. In the module as it is written,
  a probe response that tells no length makes the call raise \<^verbatim>\<open>NameError\<close>;
  with \<^verbatim>\<open>get_total_length\<close> bound to a helper that finds no length in it, the
  same call raises \<^verbatim>\<open>OSError(ESPIPE)\<close>. Neither run sends a data request.
\<close>

theorem read_bytes_no_length_NameError:
  "read_bytes module_get_total_length
       (demo_env\<lparr>send := (\<lambda>log req. Inr \<lparr>resp_headers = [], resp_content = []\<rparr>)\<rparr>)
       [] demo_client ''/d/home/a.bin'' None 0 (Some (- 1))
     = (Inl (NameError ''get_total_length''),
        [Sent (probe demo_client ''/d/home/a.bin'' None),
         Closed \<lparr>resp_headers = [], resp_content = []\<rparr>])
   \<and> read_bytes (Some demo_total_length)
       (demo_env\<lparr>send := (\<lambda>log req. Inr \<lparr>resp_headers = [], resp_content = []\<rparr>)\<rparr>)
       [] demo_client ''/d/home/a.bin'' None 0 (Some (- 1))
     = (Inl (Raised OSError ESPIPE None),
        [Sent (probe demo_client ''/d/home/a.bin'' None),
         Closed \<lparr>resp_headers = [], resp_content = []\<rparr>])"
proof -
  let ?env = "demo_env\<lparr>send := (\<lambda>log req. Inr \<lparr>resp_headers = [], resp_content = []\<rparr>)\<rparr>"
  have p: "(0 :: int) < 0 \<or> (\<exists>s. Some (- 1 :: int) = Some s \<and> s < 0)" by simp
  have r: "send ?env [] (probe demo_client ''/d/home/a.bin'' None)
     = Inr \<lparr>resp_headers = [], resp_content = []\<rparr>" by simp
  have l: "demo_total_length \<lparr>resp_headers = [], resp_content = []\<rparr> = None"
    by (simp add: demo_total_length_def)
  show ?thesis
    using get_bytes_range_unbound [OF p r] get_bytes_range_no_length [where f = demo_total_length, OF p r l]
    by (simp add: read_bytes_def module_get_total_length_def)
qed

subsection \<open>The session\<close>

text \<open>The header dictionary finds a key in any spelling of its letters.\<close>

lemma CIMultiDict_setitem_ignores_case:
  "CIMultiDict_setitem ''Authorization'' (JStr ''t1'')
     [(''Accept'', JStr ''*/*''), (''authorization'', JStr ''t0''),
      (''AUTHORIZATION'', JStr ''t9'')]
   = [(''Accept'', JStr ''*/*''), (''Authorization'', JStr ''t1'')]"
  by (simp add: same_key_def lower_def)

lemma CIMultiDict_pop_ignores_case:
  "CIMultiDict_pop ''Authorization''
     [(''Accept'', JStr ''*/*''), (''authorization'', JStr ''t0''),
      (''AUTHORIZATION'', JStr ''t9'')]
   = [(''Accept'', JStr ''*/*''), (''AUTHORIZATION'', JStr ''t9'')]"
  by (simp add: same_key_def lower_def)

lemma login_request_sent:
  "(if hash_password
    then auth_login_hash env log ns payload
    else auth_login env log ns payload)
   = (case send env log
             (request ns (if hash_password then ''/api/auth/login/hash'' else ''/api/auth/login'')
                ''POST'' None (Some payload) ParseJson) of
        Inl e \<Rightarrow> Inl e
      | Inr r \<Rightarrow> loads env (resp_content r),
      log @ [Sent (request ns
                     (if hash_password then ''/api/auth/login/hash'' else ''/api/auth/login'')
                     ''POST'' None (Some payload) ParseJson)])"
  by (simp add: auth_login_def auth_login_hash_def request_json_def Let_def)

lemma login_gen_step_credentials:
  assumes "login_gen_step env log ns h = (r, c', log')"
  shows "username c' = username ns \<and> password c' = password ns
       \<and> otp_code c' = otp_code ns \<and> origin c' = origin ns"
  using assms unfolding login_gen_step_def login_request_sent
  by (auto split: if_splits sum.splits)

lemma login_gen_step_completed:
  assumes "login_gen_step env log ns h = (Inr (), c', log')"
  shows "base_path_cache c' = None"
  using assms unfolding login_gen_step_def login_request_sent
  by (auto split: if_splits sum.splits)

lemma login_gen_step_failed:
  assumes "login_gen_step env log ns h = (Inl e, c', log')"
  shows "c' = ns"
  using assms unfolding login_gen_step_def login_request_sent
  by (auto split: if_splits sum.splits)

lemma login_gen_step_log:
  "snd (snd (login_gen_step env log ns h)) =
     (if username ns \<noteq> []
      then log @ [Sent (request ns (if h then ''/api/auth/login/hash'' else ''/api/auth/login'')
                          ''POST'' None
                          (Some (login_payload env h (username ns) (password ns) (otp_code ns)))
                          ParseJson)]
      else log)"
  unfolding login_gen_step_def login_request_sent
  by (auto split: if_splits sum.splits)

lemma login_completed:
  assumes "login env log c u p otp h = (Inr (), c', log')"
  shows "base_path_cache c' = None"
  using assms unfolding login_def by (rule login_gen_step_completed)

lemma login_failed:
  assumes "login env log c u p otp h = (Inl e, c', log')"
  shows "base_path_cache c' = base_path_cache c \<and> headers c' = headers c"
  using login_gen_step_failed [OF assms [unfolded login_def]] by simp

lemma login_credentials:
  assumes "login env log c u p otp h = (r, c', log')"
  shows "username c' = (if u \<noteq> [] then u else username c)
       \<and> password c' = (if p \<noteq> [] then p else password c)
       \<and> otp_code c' = (if truthy otp then otp else otp_code c)"
  using login_gen_step_credentials [OF assms [unfolded login_def]] by simp

lemma base_path_cached:
  assumes "base_path_cache c = Some v"
  shows "base_path env log c = (Inr v, c, log)"
  using assms by (simp add: base_path_def)

lemma get_base_path_eq:
  "get_base_path env log c =
     (case (case send env log (request c ''/api/me'' ''GET'' None None ParseJson) of
              Inl e \<Rightarrow> Inl e
            | Inr r \<Rightarrow> loads env (resp_content r)) of
        Inl e \<Rightarrow> Inl e
      | Inr resp \<Rightarrow> getitem (data resp) ''base_path'',
      log @ [Sent (request c ''/api/me'' ''GET'' None None ParseJson)])"
  by (simp add: get_base_path_def auth_me_def request_json_def Let_def split: sum.splits)

lemma base_path_uncached:
  assumes "base_path_cache c = None"
  shows "snd (snd (base_path env log c))
           = log @ [Sent (request c ''/api/me'' ''GET'' None None ParseJson)]
       \<and> (case fst (base_path env log c) of
            Inl e \<Rightarrow> fst (snd (base_path env log c)) = c
          | Inr v \<Rightarrow> fst (snd (base_path env log c)) = c\<lparr>base_path_cache := Some v\<rparr>)"
  using assms
  by (simp add: base_path_def get_base_path_eq split: sum.splits)

lemma base_path_result:
  assumes "base_path env log c = (Inr v, c', log')"
  shows "base_path_cache c' = Some v \<and> origin c' = origin c"
  using assms
  by (auto simp add: base_path_def get_base_path_eq split: option.splits sum.splits)

lemma get_url_eq:
  assumes "base_path env log c = (Inr (JStr b), c', log')"
  shows "get_url env log c path ensure_ascii =
     (Inr (origin c @ ''/d'' @
            (if ensure_ascii then quote (if b \<noteq> ''/'' then b @ path else path) safe_chars
             else translate (if b \<noteq> ''/'' then b @ path else path))),
      c', log')"
proof -
  from base_path_result [OF assms]
  have c: "base_path_cache c' = Some (JStr b)" and o: "origin c' = origin c" by simp_all
  have again: "base_path env log' c' = (Inr (JStr b), c', log')"
    using c by (rule base_path_cached)
  show ?thesis
    by (simp add: get_url_def assms again o)
qed

lemma quote_append: "quote (s @ t) safe = quote s safe @ quote t safe"
  by (simp add: quote_def)

lemma translate_append: "translate (s @ t) = translate s @ translate t"
  by (simp add: translate_def)

lemma percent_hash: "percent (CHR ''#'') = ''%23''"
  by (simp add: percent_def)

lemma percent_question: "percent (CHR ''?'') = ''%3F''"
  by (simp add: percent_def)

lemma hash_question_not_safe:
  "CHR ''#'' \<notin> set always_safe \<union> set safe_chars \<and> CHR ''?'' \<notin> set always_safe \<union> set safe_chars"
  by (simp add: always_safe_def safe_chars_def)

lemma demo_login_alice:
  "login demo_env [] demo_client [] [] (PStr []) True
     = (Inr (),
        demo_client\<lparr>headers := CIMultiDict_setitem ''Authorization'' (JStr ''t1'')
                                   (headers demo_client),
                      base_path_cache := None\<rparr>,
        [Sent (request demo_client ''/api/auth/login/hash'' ''POST'' None
                 (Some (JObj [(''username'', JStr ''alice''), (''password'', JStr ''digest''),
                              (''otp_code'', JStr [])]))
                 ParseJson)])"
  by (simp add: login_def login_gen_step_def login_request_sent login_payload_def
      demo_env_def demo_send_def demo_loads_def demo_client_def request_def)

lemma demo_login_bob:
  "login demo_env [] demo_client ''bob'' ''guess'' (PStr []) True
     = (Inl (Raised OSError EINVAL
               (Some \<lparr>code = 401, message = ''password is incorrect'', data = JNull\<rparr>)),
        demo_client\<lparr>username := ''bob'', password := ''guess''\<rparr>,
        [Sent (request (demo_client\<lparr>username := ''bob'', password := ''guess''\<rparr>)
                 ''/api/auth/login/hash'' ''POST'' None
                 (Some (JObj [(''username'', JStr ''bob''), (''password'', JStr ''digest''),
                              (''otp_code'', JStr [])]))
                 ParseJson)])"
  by (simp add: login_def login_gen_step_def login_request_sent login_payload_def
      demo_env_def demo_send_def demo_loads_def demo_client_def request_def)

lemma demo_base_path:
  "base_path demo_env log (demo_client\<lparr>base_path_cache := None\<rparr>)
     = (Inr (JStr ''/home''), demo_client\<lparr>base_path_cache := Some (JStr ''/home'')\<rparr>,
        log @ [Sent (request (demo_client\<lparr>base_path_cache := None\<rparr>) ''/api/me'' ''GET'' None None ParseJson)])"
  by (simp add: base_path_def get_base_path_eq demo_env_def demo_send_def demo_loads_def
      request_def)

text \<open>
  C3, as stated, fails for a login that fails: the call below replaces the user name
  and the password, the server answers 401, \<^verbatim>\<open>OSError(EINVAL)\<close> is raised at
  line 293, and the cached base path is still there; the next access returns it and
  sends nothing.
\<close>

theorem failed_login_keeps_base_path_counterexample:
  "(case login demo_env [] demo_client ''bob'' ''guess'' (PStr []) True of
      (r, c', log') \<Rightarrow>
        r = Inl (Raised OSError EINVAL
                   (Some \<lparr>code = 401, message = ''password is incorrect'', data = JNull\<rparr>))
        \<and> username c' = ''bob'' \<and> password c' = ''guess''
        \<and> base_path_cache c' = Some (JStr ''/old'')
        \<and> base_path demo_env log' c' = (Inr (JStr ''/old''), c', log'))"
  by (simp add: demo_login_bob base_path_def) (simp add: demo_client_def)

text \<open>
  C3, amended. A login call that completes leaves no cached base path, whether it
  replaced a credential or not. A login call that fails, and a direct assignment to
  \<^verbatim>\<open>username\<close>, leave the header dictionary (with its
  \<^verbatim>\<open>Authorization\<close> entry) and the cached base path as they were. With no
  cached base path, an access sends exactly one identity lookup
  (\<^verbatim>\<open>GET /api/me\<close>); its result is \<^verbatim>\<open>data.base_path\<close> of the decoded
  reply, or the exception of the request, of the decoding or of the subscript; a
  value obtained is stored and an exception stores nothing. With a cached base path,
  an access sends nothing and returns it.
\<close>

theorem base_path_invalidation:
  "(login env log c u p otp h = (r, c', log') \<longrightarrow>
      (r = Inr () \<longrightarrow> base_path_cache c' = None)
      \<and> (r \<noteq> Inr () \<longrightarrow> base_path_cache c' = base_path_cache c \<and> headers c' = headers c))
   \<and> setattr env log c ''username'' v = (Inl TypeError, c\<lparr>username := py_str v\<rparr>, log)
   \<and> (base_path_cache c = None \<longrightarrow>
        snd (snd (base_path env log c))
          = log @ [Sent (request c ''/api/me'' ''GET'' None None ParseJson)]
        \<and> (case fst (base_path env log c) of
             Inl e \<Rightarrow> fst (snd (base_path env log c)) = c
           | Inr b \<Rightarrow> fst (snd (base_path env log c)) = c\<lparr>base_path_cache := Some b\<rparr>)
        \<and> fst (base_path env log c)
            = (case send env log (request c ''/api/me'' ''GET'' None None ParseJson) of
                 Inl e \<Rightarrow> Inl e
               | Inr reply \<Rightarrow>
                   (case loads env (resp_content reply) of
                      Inl e \<Rightarrow> Inl e
                    | Inr resp \<Rightarrow> getitem (data resp) ''base_path''))
        \<and> (send env log (request c ''/api/me'' ''GET'' None None ParseJson) = Inr reply
             \<and> loads env (resp_content reply) = Inr resp
             \<and> getitem (data resp) ''base_path'' = Inr b
            \<longrightarrow> base_path env log c
                  = (Inr b, c\<lparr>base_path_cache := Some b\<rparr>,
                     log @ [Sent (request c ''/api/me'' ''GET'' None None ParseJson)])))
   \<and> (base_path_cache c = Some b \<longrightarrow> base_path env log c = (Inr b, c, log))"
proof (intro conjI impI)
  assume l: "login env log c u p otp h = (r, c', log')" and "r = Inr ()"
  then show "base_path_cache c' = None" by (simp add: login_completed)
next
  assume l: "login env log c u p otp h = (r, c', log')" and n: "r \<noteq> Inr ()"
  from n obtain e where "r = Inl e" by (cases r) auto
  with l have "login env log c u p otp h = (Inl e, c', log')" by simp
  from login_failed [OF this]
  show "base_path_cache c' = base_path_cache c" and "headers c' = headers c" by simp_all
next
  show "setattr env log c ''username'' v = (Inl TypeError, c\<lparr>username := py_str v\<rparr>, log)"
    by (simp add: setattr_def)
next
  assume "base_path_cache c = None"
  from base_path_uncached [OF this]
  show "snd (snd (base_path env log c))
          = log @ [Sent (request c ''/api/me'' ''GET'' None None ParseJson)]"
    and "(case fst (base_path env log c) of
             Inl e \<Rightarrow> fst (snd (base_path env log c)) = c
           | Inr b \<Rightarrow> fst (snd (base_path env log c)) = c\<lparr>base_path_cache := Some b\<rparr>)"
    by simp_all
next
  assume "base_path_cache c = None"
  then show "fst (base_path env log c)
            = (case send env log (request c ''/api/me'' ''GET'' None None ParseJson) of
                 Inl e \<Rightarrow> Inl e
               | Inr reply \<Rightarrow>
                   (case loads env (resp_content reply) of
                      Inl e \<Rightarrow> Inl e
                    | Inr resp \<Rightarrow> getitem (data resp) ''base_path''))"
    by (simp add: base_path_def get_base_path_eq split: sum.splits)
next
  assume "base_path_cache c = None"
    and "send env log (request c ''/api/me'' ''GET'' None None ParseJson) = Inr reply
             \<and> loads env (resp_content reply) = Inr resp
             \<and> getitem (data resp) ''base_path'' = Inr b"
  then show "base_path env log c
                  = (Inr b, c\<lparr>base_path_cache := Some b\<rparr>,
                     log @ [Sent (request c ''/api/me'' ''GET'' None None ParseJson)])"
    by (simp add: base_path_def get_base_path_eq)
next
  assume "base_path_cache c = Some b"
  then show "base_path env log c = (Inr b, c, log)" by (rule base_path_cached)
qed

theorem base_path_invalidation_witness:
  "login demo_env [] demo_client [] [] (PStr []) True
     = (Inr (),
        demo_client\<lparr>headers := CIMultiDict_setitem ''Authorization'' (JStr ''t1'')
                                   (headers demo_client),
                      base_path_cache := None\<rparr>,
        [Sent (request demo_client ''/api/auth/login/hash'' ''POST'' None
                 (Some (JObj [(''username'', JStr ''alice''), (''password'', JStr ''digest''),
                              (''otp_code'', JStr [])]))
                 ParseJson)])
   \<and> base_path_cache
        (demo_client\<lparr>headers := CIMultiDict_setitem ''Authorization'' (JStr ''t1'')
                                   (headers demo_client),
                      base_path_cache := None\<rparr>) = None
   \<and> fst (login demo_env [] demo_client ''bob'' ''guess'' (PStr []) True) \<noteq> Inr ()
   \<and> base_path_cache (fst (snd (login demo_env [] demo_client ''bob'' ''guess'' (PStr []) True)))
       = base_path_cache demo_client
   \<and> headers (fst (snd (login demo_env [] demo_client ''bob'' ''guess'' (PStr []) True)))
       = headers demo_client
   \<and> base_path_cache demo_client = Some (JStr ''/old'')
   \<and> base_path demo_env [] demo_client = (Inr (JStr ''/old''), demo_client, [])
   \<and> base_path_cache (demo_client\<lparr>base_path_cache := None\<rparr>) = None
   \<and> send demo_env []
        (request (demo_client\<lparr>base_path_cache := None\<rparr>) ''/api/me'' ''GET'' None None
           ParseJson)
       = Inr \<lparr>resp_headers = [], resp_content = ''me''\<rparr>
   \<and> loads demo_env ''me''
       = Inr \<lparr>code = 200, message = ''success'',
              data = JObj [(''base_path'', JStr ''/home'')]\<rparr>
   \<and> getitem (JObj [(''base_path'', JStr ''/home'')]) ''base_path'' = Inr (JStr ''/home'')
   \<and> base_path demo_env [] (demo_client\<lparr>base_path_cache := None\<rparr>)
       = (Inr (JStr ''/home''), demo_client\<lparr>base_path_cache := Some (JStr ''/home'')\<rparr>,
          [Sent (request (demo_client\<lparr>base_path_cache := None\<rparr>) ''/api/me'' ''GET'' None
                   None ParseJson)])"
proof -
  have cached: "base_path_cache demo_client = Some (JStr ''/old'')"
    by (simp add: demo_client_def)
  have uncached: "base_path_cache (demo_client\<lparr>base_path_cache := None\<rparr>) = None"
    by simp
  have sent: "send demo_env []
        (request (demo_client\<lparr>base_path_cache := None\<rparr>) ''/api/me'' ''GET'' None None
           ParseJson)
       = Inr \<lparr>resp_headers = [], resp_content = ''me''\<rparr>"
    by (simp add: demo_env_def demo_send_def request_def)
  have decoded: "loads demo_env (resp_content \<lparr>resp_headers = [], resp_content = ''me''\<rparr>)
       = Inr \<lparr>code = 200, message = ''success'',
              data = JObj [(''base_path'', JStr ''/home'')]\<rparr>"
    by (simp add: demo_env_def demo_loads_def)
  have item: "getitem (data \<lparr>code = 200, message = ''success'',
                              data = JObj [(''base_path'', JStr ''/home'')]\<rparr>) ''base_path''
       = Inr (JStr ''/home'')"
    by simp
  note a = base_path_invalidation [where env = demo_env and log = "[]" and c = demo_client
      and u = "[]" and p = "[]" and otp = "PStr []" and h = True and r = "Inr ()"
      and b = "JStr ''/old''", unfolded demo_login_alice]
  note b = base_path_invalidation [where env = demo_env and log = "[]"
      and c = "demo_client\<lparr>base_path_cache := None\<rparr>"
      and reply = "\<lparr>resp_headers = [], resp_content = ''me''\<rparr>"
      and resp = "\<lparr>code = 200, message = ''success'',
                     data = JObj [(''base_path'', JStr ''/home'')]\<rparr>"
      and b = "JStr ''/home''"]
  from b uncached sent decoded item
  have fetched: "base_path demo_env [] (demo_client\<lparr>base_path_cache := None\<rparr>)
       = (Inr (JStr ''/home''), demo_client\<lparr>base_path_cache := Some (JStr ''/home'')\<rparr>,
          [Sent (request (demo_client\<lparr>base_path_cache := None\<rparr>) ''/api/me'' ''GET'' None
                   None ParseJson)])"
    by simp
  have failed: "fst (login demo_env [] demo_client ''bob'' ''guess'' (PStr []) True) \<noteq> Inr ()"
    by (simp add: demo_login_bob)
  note c = base_path_invalidation [where env = demo_env and log = "[]" and c = demo_client
      and u = "''bob''" and p = "''guess''" and otp = "PStr []" and h = True
      and r = "fst (login demo_env [] demo_client ''bob'' ''guess'' (PStr []) True)"
      and c' = "fst (snd (login demo_env [] demo_client ''bob'' ''guess'' (PStr []) True))"
      and log' = "snd (snd (login demo_env [] demo_client ''bob'' ''guess'' (PStr []) True))"]
  from c failed
  have kept: "base_path_cache
                (fst (snd (login demo_env [] demo_client ''bob'' ''guess'' (PStr []) True)))
              = base_path_cache demo_client
            \<and> headers (fst (snd (login demo_env [] demo_client ''bob'' ''guess'' (PStr []) True)))
              = headers demo_client"
    by simp
  from decoded have decoded': "loads demo_env ''me''
       = Inr \<lparr>code = 200, message = ''success'',
              data = JObj [(''base_path'', JStr ''/home'')]\<rparr>"
    by simp
  from a cached uncached failed kept sent decoded' fetched show ?thesis
    by (simp add: demo_login_alice)
qed

subsection \<open>Attribute assignment\<close>

text \<open>
  C10, as stated, fails when the re-login fails: assigning a password on a client
  whose user the server rejects raises the \<^verbatim>\<open>OSError(EINVAL)\<close> of
  \<^verbatim>\<open>login\<close>, not \<^verbatim>\<open>TypeError\<close>.
\<close>

theorem setattr_relogin_failure_counterexample:
  "setattr demo_env [] (demo_client\<lparr>username := ''bob''\<rparr>) ''password'' (PStr ''guess'')
     = (Inl (Raised OSError EINVAL
               (Some \<lparr>code = 401, message = ''password is incorrect'', data = JNull\<rparr>)),
        demo_client\<lparr>username := ''bob'', password := ''guess''\<rparr>,
        [Sent (request (demo_client\<lparr>username := ''bob'', password := ''guess''\<rparr>)
                 ''/api/auth/login/hash'' ''POST'' None
                 (Some (JObj [(''username'', JStr ''bob''), (''password'', JStr ''digest''),
                              (''otp_code'', JStr [])]))
                 ParseJson)])"
  by (simp add: setattr_def Let_def login_def login_gen_step_def login_request_sent login_payload_def
      demo_env_def demo_send_def demo_loads_def demo_client_def request_def)

lemma setattr_relogin:
  assumes "attr = ''password'' \<or> attr = ''otp_code''"
  shows "setattr env log c attr v =
     (case login env log
             (if attr = ''password'' then c\<lparr>password := py_str v\<rparr>
              else c\<lparr>otp_code := PStr (py_str v)\<rparr>) [] [] (PStr []) True of
        (Inl e, c', log') \<Rightarrow> (Inl e, c', log')
      | (Inr u, c', log') \<Rightarrow> (Inl TypeError, c', log'))"
  using assms by (auto simp add: setattr_def Let_def)

text \<open>
  C10, amended. An attribute assignment never completes normally. For a name other
  than the three credentials it raises \<^verbatim>\<open>TypeError\<close> and changes nothing; for
  \<^verbatim>\<open>username\<close> it stores the string form of the value and raises
  \<^verbatim>\<open>TypeError\<close>; for \<^verbatim>\<open>password\<close> and \<^verbatim>\<open>otp_code\<close> it stores
  the string form, runs \<^verbatim>\<open>login()\<close> with its defaults on the updated object
  (the object and the log afterwards are those of that login), and raises
  \<^verbatim>\<open>TypeError\<close> when the login completed and the login's own exception when
  it failed. The stored string form is still there then.
\<close>

theorem setattr_raises:
  "(attr \<noteq> ''username'' \<and> attr \<noteq> ''password'' \<and> attr \<noteq> ''otp_code''
      \<longrightarrow> setattr env log c attr v = (Inl TypeError, c, log))
   \<and> setattr env log c ''username'' v = (Inl TypeError, c\<lparr>username := py_str v\<rparr>, log)
   \<and> snd (setattr env log c ''password'' v)
       = snd (login env log (c\<lparr>password := py_str v\<rparr>) [] [] (PStr []) True)
   \<and> fst (setattr env log c ''password'' v)
       = (case fst (login env log (c\<lparr>password := py_str v\<rparr>) [] [] (PStr []) True) of
            Inl e \<Rightarrow> Inl e | Inr u \<Rightarrow> Inl TypeError)
   \<and> password (fst (snd (setattr env log c ''password'' v))) = py_str v
   \<and> snd (setattr env log c ''otp_code'' v)
       = snd (login env log (c\<lparr>otp_code := PStr (py_str v)\<rparr>) [] [] (PStr []) True)
   \<and> fst (setattr env log c ''otp_code'' v)
       = (case fst (login env log (c\<lparr>otp_code := PStr (py_str v)\<rparr>) [] [] (PStr []) True) of
            Inl e \<Rightarrow> Inl e | Inr u \<Rightarrow> Inl TypeError)
   \<and> otp_code (fst (snd (setattr env log c ''otp_code'' v))) = PStr (py_str v)
   \<and> fst (setattr env log c attr v) \<noteq> Inr ()"
proof -
  have other: "attr \<noteq> ''username'' \<and> attr \<noteq> ''password'' \<and> attr \<noteq> ''otp_code''
      \<longrightarrow> setattr env log c attr v = (Inl TypeError, c, log)"
    by (simp add: setattr_def)
  have user: "setattr env log c ''username'' v = (Inl TypeError, c\<lparr>username := py_str v\<rparr>, log)"
    by (simp add: setattr_def)
  obtain r1 c1 log1 where l1:
    "login env log (c\<lparr>password := py_str v\<rparr>) [] [] (PStr []) True = (r1, c1, log1)"
    by (cases "login env log (c\<lparr>password := py_str v\<rparr>) [] [] (PStr []) True") auto
  obtain r2 c2 log2 where l2:
    "login env log (c\<lparr>otp_code := PStr (py_str v)\<rparr>) [] [] (PStr []) True = (r2, c2, log2)"
    by (cases "login env log (c\<lparr>otp_code := PStr (py_str v)\<rparr>) [] [] (PStr []) True") auto
  have p: "setattr env log c ''password'' v
             = (case r1 of Inl e \<Rightarrow> Inl e | Inr u \<Rightarrow> Inl TypeError, c1, log1)"
    by (simp add: setattr_relogin l1 split: sum.splits)
  have o: "setattr env log c ''otp_code'' v
             = (case r2 of Inl e \<Rightarrow> Inl e | Inr u \<Rightarrow> Inl TypeError, c2, log2)"
    by (simp add: setattr_relogin l2 split: sum.splits)
  have never: "fst (setattr env log c attr v) \<noteq> Inr ()"
  proof (cases "attr = ''password'' \<or> attr = ''otp_code''")
    case True
    then show ?thesis using p o by (auto split: sum.splits)
  next
    case False
    then show ?thesis using other user by (cases "attr = ''username''") auto
  qed
  show ?thesis
    using other user never login_credentials [OF l1] login_credentials [OF l2]
    by (simp add: p o l1 l2)
qed

theorem setattr_raises_witness:
  "setattr demo_env [] demo_client ''origin'' (PStr ''http://example.org'')
     = (Inl TypeError, demo_client, [])
   \<and> ''origin'' \<noteq> ''username'' \<and> ''origin'' \<noteq> ''password'' \<and> ''origin'' \<noteq> ''otp_code''
   \<and> setattr demo_env [] demo_client ''username'' (PInt 7)
     = (Inl TypeError, demo_client\<lparr>username := ''7''\<rparr>, [])
   \<and> fst (setattr demo_env [] demo_client ''password'' (PStr ''secret2'')) = Inl TypeError
   \<and> password (fst (snd (setattr demo_env [] demo_client ''password'' (PStr ''secret2''))))
       = ''secret2''"
proof -
  have l: "fst (login demo_env [] (demo_client\<lparr>password := ''secret2''\<rparr>)
             [] [] (PStr []) True) = Inr ()"
    by (simp add: login_def login_gen_step_def login_request_sent login_payload_def
      demo_env_def demo_send_def demo_loads_def demo_client_def request_def)
  have s7: "str_int 7 = ''7''" by (simp add: str_int_def str_nat.simps)
  have a: "setattr demo_env [] demo_client ''origin'' (PStr ''http://example.org'')
     = (Inl TypeError, demo_client, [])"
    using setattr_raises [of "''origin''" demo_env "[]" demo_client "PStr ''http://example.org''"]
    by simp
  have b: "setattr demo_env [] demo_client ''username'' (PInt 7)
     = (Inl TypeError, demo_client\<lparr>username := ''7''\<rparr>, [])"
    using setattr_raises [of "''origin''" demo_env "[]" demo_client "PInt 7"]
    by (simp add: s7)
  note t = setattr_raises [of "''origin''" demo_env "[]" demo_client "PStr ''secret2''"]
  from t have "fst (setattr demo_env [] demo_client ''password'' (PStr ''secret2''))
       = (case fst (login demo_env [] (demo_client\<lparr>password := py_str (PStr ''secret2'')\<rparr>)
                      [] [] (PStr []) True) of
            Inl e \<Rightarrow> Inl e | Inr u \<Rightarrow> Inl TypeError)"
    by blast
  then have c1: "fst (setattr demo_env [] demo_client ''password'' (PStr ''secret2''))
       = Inl TypeError"
    by (simp add: l)
  from t have "password (fst (snd (setattr demo_env [] demo_client ''password''
                                   (PStr ''secret2'')))) = py_str (PStr ''secret2'')"
    by blast
  then have c2: "password (fst (snd (setattr demo_env [] demo_client ''password''
                                   (PStr ''secret2'')))) = ''secret2''"
    by simp
  note c = c1 c2
  from a b c show ?thesis by simp
qed

subsection \<open>The download URL\<close>

text \<open>
  C9, as stated, fails for the base path \<^verbatim>\<open>/\<close>, which line 2568 does not
  prepend: the result has \<^verbatim>\<open>/d/a%20b%23c\<close>, not the \<^verbatim>\<open>/d//a%20b%23c\<close>
  of the prefixed path.
\<close>

theorem get_url_root_base_path_counterexample:
  "get_url demo_env [] (demo_client\<lparr>base_path_cache := Some (JStr ''/'')\<rparr>) ''/a b#c'' True
     = (Inr ''http://localhost:5244/d/a%20b%23c'',
        demo_client\<lparr>base_path_cache := Some (JStr ''/'')\<rparr>, [])
   \<and> origin demo_client @ ''/d'' @ quote (''/'' @ ''/a b#c'') safe_chars
     = ''http://localhost:5244/d//a%20b%23c''"
  by (simp add: get_url_def base_path_def quote_def always_safe_def safe_chars_def percent_def
      demo_client_def)

text \<open>
  C9, amended. When the base path is the string \<open>b\<close> (cached, or fetched by the
  one identity lookup), \<^verbatim>\<open>get_url\<close> returns the origin, then \<^verbatim>\<open>/d\<close>,
  then the encoded path, where the path is \<open>b\<close> followed by the argument unless
  \<open>b\<close> is \<^verbatim>\<open>/\<close>, and the argument alone then. With \<^verbatim>\<open>ensure_ascii\<close>
  true every byte is percent-encoded except ASCII letters, digits,
  \<^verbatim>\<open>_.-~\<close> and the safe characters \<^verbatim>\<open>@[]:/!$&'()*+,;=\<close>; with
  \<^verbatim>\<open>ensure_ascii\<close> false \<^verbatim>\<open>#\<close> and \<^verbatim>\<open>?\<close> become
  \<^verbatim>\<open>%23\<close> and \<^verbatim>\<open>%3F\<close> and every other byte stays. Both encodings
  work byte by byte and agree on \<^verbatim>\<open>#\<close> and \<^verbatim>\<open>?\<close>.
\<close>

theorem get_url_result:
  "(base_path env log c = (Inr (JStr b), c', log') \<longrightarrow>
      get_url env log c path ensure_ascii =
        (Inr (origin c @ ''/d'' @
               (if ensure_ascii
                then quote (if b \<noteq> ''/'' then b @ path else path) safe_chars
                else translate (if b \<noteq> ''/'' then b @ path else path))),
         c', log'))
   \<and> quote (s @ t) safe_chars = quote s safe_chars @ quote t safe_chars
   \<and> (ch \<in> set always_safe \<union> set safe_chars \<longrightarrow> quote [ch] safe_chars = [ch])
   \<and> (ch \<notin> set always_safe \<union> set safe_chars \<longrightarrow> quote [ch] safe_chars = percent ch)
   \<and> quote ''#?'' safe_chars = ''%23%3F''
   \<and> translate (s @ t) = translate s @ translate t
   \<and> translate ''#?'' = ''%23%3F''
   \<and> (ch \<noteq> CHR ''#'' \<and> ch \<noteq> CHR ''?'' \<longrightarrow> translate [ch] = [ch])"
proof (intro conjI impI)
  assume "base_path env log c = (Inr (JStr b), c', log')"
  then show "get_url env log c path ensure_ascii =
        (Inr (origin c @ ''/d'' @
               (if ensure_ascii
                then quote (if b \<noteq> ''/'' then b @ path else path) safe_chars
                else translate (if b \<noteq> ''/'' then b @ path else path))),
         c', log')"
    by (rule get_url_eq)
next
  show "quote ''#?'' safe_chars = ''%23%3F''"
    by (simp add: quote_def always_safe_def safe_chars_def percent_def)
qed (simp_all add: quote_def translate_def)

theorem get_url_result_witness:
  "base_path demo_env [] (demo_client\<lparr>base_path_cache := None\<rparr>)
     = (Inr (JStr ''/home''), demo_client\<lparr>base_path_cache := Some (JStr ''/home'')\<rparr>,
        [Sent (request (demo_client\<lparr>base_path_cache := None\<rparr>) ''/api/me'' ''GET'' None None
                 ParseJson)])
   \<and> get_url demo_env [] (demo_client\<lparr>base_path_cache := None\<rparr>) ''/a b#c?d'' True
     = (Inr ''http://localhost:5244/d/home/a%20b%23c%3Fd'',
        demo_client\<lparr>base_path_cache := Some (JStr ''/home'')\<rparr>,
        [Sent (request (demo_client\<lparr>base_path_cache := None\<rparr>) ''/api/me'' ''GET'' None None
                 ParseJson)])
   \<and> get_url demo_env [] (demo_client\<lparr>base_path_cache := None\<rparr>) ''/a b#c?d'' False
     = (Inr ''http://localhost:5244/d/home/a b%23c%3Fd'',
        demo_client\<lparr>base_path_cache := Some (JStr ''/home'')\<rparr>,
        [Sent (request (demo_client\<lparr>base_path_cache := None\<rparr>) ''/api/me'' ''GET'' None None
                 ParseJson)])
   \<and> CHR ''/'' \<in> set always_safe \<union> set safe_chars \<and> quote ''/'' safe_chars = ''/''
   \<and> CHR '' '' \<notin> set always_safe \<union> set safe_chars \<and> quote '' '' safe_chars = ''%20''
   \<and> translate ''a'' = ''a''"
proof -
  note bp = demo_base_path [of "[]", simplified]
  have q: "quote ''/home/a b#c?d'' safe_chars = ''/home/a%20b%23c%3Fd''"
    by (simp add: quote_def always_safe_def safe_chars_def percent_def)
  have t: "translate ''/home/a b#c?d'' = ''/home/a b%23c%3Fd''"
    by (simp add: translate_def)
  have o: "origin (demo_client\<lparr>base_path_cache := None\<rparr>) = ''http://localhost:5244''"
    by (simp add: demo_client_def)
  have m1: "CHR ''/'' \<in> set always_safe \<union> set safe_chars"
    by (simp add: always_safe_def safe_chars_def)
  have m2: "CHR '' '' \<notin> set always_safe \<union> set safe_chars"
    by (simp add: always_safe_def safe_chars_def)
  have p: "percent (CHR '' '') = ''%20''" by (simp add: percent_def)
  note g1 = get_url_result [where env = demo_env and log = "[]"
      and c = "demo_client\<lparr>base_path_cache := None\<rparr>" and b = "''/home''"
      and path = "''/a b#c?d''" and ensure_ascii = True and ch = "CHR ''/''"]
  note g2 = get_url_result [where env = demo_env and log = "[]"
      and c = "demo_client\<lparr>base_path_cache := None\<rparr>" and b = "''/home''"
      and path = "''/a b#c?d''" and ensure_ascii = False and ch = "CHR '' ''"]
  note g3 = get_url_result [where ch = "CHR ''a''"]
  from g1 bp have u1: "get_url demo_env [] (demo_client\<lparr>base_path_cache := None\<rparr>) ''/a b#c?d'' True
     = (Inr ''http://localhost:5244/d/home/a%20b%23c%3Fd'',
        demo_client\<lparr>base_path_cache := Some (JStr ''/home'')\<rparr>,
        [Sent (request (demo_client\<lparr>base_path_cache := None\<rparr>) ''/api/me'' ''GET'' None None
                 ParseJson)])"
    by (simp add: q o)
  from g2 bp have u2: "get_url demo_env [] (demo_client\<lparr>base_path_cache := None\<rparr>) ''/a b#c?d'' False
     = (Inr ''http://localhost:5244/d/home/a b%23c%3Fd'',
        demo_client\<lparr>base_path_cache := Some (JStr ''/home'')\<rparr>,
        [Sent (request (demo_client\<lparr>base_path_cache := None\<rparr>) ''/api/me'' ''GET'' None None
                 ParseJson)])"
    by (simp add: t o)
  from g1 m1 have k1: "quote ''/'' safe_chars = ''/''" by blast
  from g2 m2 have k2: "quote '' '' safe_chars = ''%20''" unfolding p [symmetric] by blast
  from g3 have k3: "translate ''a'' = ''a''" by simp
  from bp u1 u2 m1 m2 k1 k2 k3 show ?thesis by simp
qed

end
